theory Spec2Isabelle
  imports Complex_Main
begin

section \<open>Customer churn application: data model\<close>

text \<open>
  The application (\<^verbatim>\<open>app/app.py\<close>) reads six widget values, builds a one-row data
  frame for the classifier and explains the prediction with a fixed rule table.

  The widgets deliver a Python \<^verbatim>\<open>int\<close> (the tenure slider), two Python floats (the charges)
  and three strings (the select boxes). Integers are \<^typ>\<open>int\<close>; the charges are compared
  with integer constants only, which is exact on every finite float, so they are \<^typ>\<open>real\<close>;
  the select-box values stay strings, as the code compares and concatenates them.
\<close>

text \<open>
  The six widget values (module-level variables \<^verbatim>\<open>tenure\<close>, \<^verbatim>\<open>monthly_charges\<close>,
  \<^verbatim>\<open>total_charges\<close>, \<^verbatim>\<open>contract\<close>, \<^verbatim>\<open>internet_service\<close>, \<^verbatim>\<open>paperless_billing\<close>) form
  the customer profile.
\<close>

record customer_profile =
  tenureMonths :: int
  monthlyCharges :: real
  totalCharges :: real
  contractType :: string
  internetService :: string
  paperlessBilling :: string

text \<open>A reason is the triple (title, severity, explanation) the code appends.\<close>

type_synonym reason = "string \<times> string \<times> string"

section \<open>Reason generator\<close>

text \<open>
  \<^verbatim>\<open>generate_reasons_with_severity\<close>: five independent rules, each appending at most one
  triple to the local list \<^verbatim>\<open>reasons\<close>, in the order of the source. The local list is
  threaded through the \<open>let\<close> chain.
\<close>

definition generate_reasons_with_severity ::
  "int \<Rightarrow> real \<Rightarrow> string \<Rightarrow> string \<Rightarrow> string \<Rightarrow> reason list" where
  "generate_reasons_with_severity tenure monthly_charges contract internet_service paperless_billing =
    (let reasons = [];
         reasons =
           (if tenure < 12 then
              reasons @ [(''Low tenure'', ''High'',
                          ''Customer has a short relationship with the company.'')]
            else if tenure < 24 then
              reasons @ [(''Moderate tenure'', ''Medium'',
                          ''Customer loyalty is not fully established.'')]
            else reasons);
         reasons =
           (if contract = ''Month-to-month'' then
              reasons @ [(''Flexible contract'', ''High'',
                          ''Month-to-month contracts are associated with higher churn risk.'')]
            else
              reasons @ [(''Long-term contract'', ''Low'',
                          ''Long-term contracts reduce churn risk.'')]);
         reasons =
           (if monthly_charges > 70 then
              reasons @ [(''High monthly charges'', ''High'',
                          ''Customer may be sensitive to pricing.'')]
            else if monthly_charges > 50 then
              reasons @ [(''Moderate monthly charges'', ''Medium'',
                          ''Pricing level can influence churn.'')]
            else reasons);
         reasons =
           (if internet_service = ''Fiber optic'' then
              reasons @ [(''Fiber optic service'', ''Medium'',
                          ''Higher service expectations may increase churn.'')]
            else reasons);
         reasons =
           (if paperless_billing = ''Yes'' then
              reasons @ [(''Paperless billing'', ''Low'',
                          ''Digital billing users are often more flexible to switch.'')]
            else reasons)
     in reasons)"

text \<open>
  The call site in the output section passes five of the six widget values; the total
  charges are not among them.
\<close>

definition explain :: "customer_profile \<Rightarrow> reason list" where
  "explain p =
     generate_reasons_with_severity
       (tenureMonths p) (monthlyCharges p) (contractType p) (internetService p)
       (paperlessBilling p)"

text \<open>Projections of a reason triple.\<close>

definition title :: "reason \<Rightarrow> string" where
  "title r = fst r"

definition severity :: "reason \<Rightarrow> string" where
  "severity r = fst (snd r)"

definition label_severity :: "reason \<Rightarrow> string \<times> string" where
  "label_severity r = (title r, severity r)"

section \<open>Severity indicator\<close>

text \<open>
  The output section collects the severities of all reasons
  (\<^verbatim>\<open>severities = [s for _, s, _ in reasons]\<close>) and shows one of three banners. The banner
  is modelled by the Streamlit call made and the level its message starts with.
\<close>

datatype banner = St_error string | St_warning string | St_success string

definition severities :: "reason list \<Rightarrow> string list" where
  "severities reasons = map (\<lambda>(_, s, _). s) reasons"

definition severity_indicator :: "reason list \<Rightarrow> banner" where
  "severity_indicator reasons =
     (if ''High'' \<in> set (severities reasons) then St_error ''High''
      else if ''Medium'' \<in> set (severities reasons) then St_warning ''Medium''
      else St_success ''Low'')"

text \<open>The three top drivers shown are the slice \<^verbatim>\<open>reasons[:3]\<close>.\<close>

definition top_drivers :: "reason list \<Rightarrow> reason list" where
  "top_drivers reasons = take 3 reasons"

section \<open>Input data for the classifier\<close>

text \<open>
  The script builds \<^verbatim>\<open>input_data\<close>, a pandas data frame with the single row \<^verbatim>\<open>index=[0]\<close>.
  A one-row frame is the list of its columns in order, each with the value of the row;
  column names may repeat, as pandas allows. The operations below are the pandas operations
  the script calls, restricted to one row, with every exception as an error value.
\<close>

type_synonym dataframe = "(string \<times> real) list"

datatype error = KeyError | ValueError | TransformError

definition columns :: "dataframe \<Rightarrow> string list" where
  "columns df = map fst df"

text \<open>\<^verbatim>\<open>pd.DataFrame(v, index=[0], columns=cols)\<close>: every column holds the scalar.\<close>

definition DataFrame :: "real \<Rightarrow> string list \<Rightarrow> dataframe" where
  "DataFrame v cols = map (\<lambda>c. (c, v)) cols"

text \<open>
  \<^verbatim>\<open>df[key] = v\<close> with a scalar: every column named \<open>key\<close> is overwritten; when
  there is none, a new column is inserted at the end.
\<close>

definition setitem :: "dataframe \<Rightarrow> string \<Rightarrow> real \<Rightarrow> dataframe" where
  "setitem df key v =
     (if key \<in> set (columns df)
      then map (\<lambda>(c, x). if c = key then (c, v) else (c, x)) df
      else df @ [(key, v)])"

text \<open>\<^verbatim>\<open>df[key]\<close>: the values of the columns named \<open>key\<close>, in frame order.\<close>

definition getitem :: "dataframe \<Rightarrow> string \<Rightarrow> real list" where
  "getitem df key = map snd (filter (\<lambda>(c, x). c = key) df)"

text \<open>
  \<^verbatim>\<open>df[keys]\<close> with a list of names: the columns of each name in the order of the keys;
  a name that is no column raises \<^verbatim>\<open>KeyError\<close>.
\<close>

definition getitem_list :: "dataframe \<Rightarrow> string list \<Rightarrow> error + dataframe" where
  "getitem_list df keys =
     (if list_ex (\<lambda>k. k \<notin> set (columns df)) keys then Inl KeyError
      else Inr (concat (map (\<lambda>k. filter (\<lambda>(c, x). c = k) df) keys)))"

text \<open>
  \<^verbatim>\<open>df[keys] = row\<close> with a two-dimensional array of one row: the positions of the
  keys' columns are collected in key order, the array must be as wide as that
  (\<^verbatim>\<open>ValueError: Columns must be same length as key\<close> otherwise), and its entries are
  stored position by position.
\<close>

definition get_indexer :: "dataframe \<Rightarrow> string list \<Rightarrow> nat list" where
  "get_indexer df keys =
     concat (map (\<lambda>k. filter (\<lambda>i. fst (df ! i) = k) [0..<length df]) keys)"

fun iset :: "dataframe \<Rightarrow> (nat \<times> real) list \<Rightarrow> dataframe" where
  "iset df [] = df"
| "iset df ((i, v) # ivs) = iset (df[i := (fst (df ! i), v)]) ivs"

definition setitem_array :: "dataframe \<Rightarrow> string list \<Rightarrow> real list \<Rightarrow> error + dataframe" where
  "setitem_array df keys row =
     (let ilocs = get_indexer df keys
      in if length row \<noteq> length ilocs then Inl ValueError
         else Inr (iset df (zip ilocs row)))"

text \<open>
  The feature columns and the scaler are artifacts loaded from files by \<^verbatim>\<open>load_artifacts\<close>;
  both are parameters here. The scaler is opaque: its \<^verbatim>\<open>transform\<close> takes the selected
  frame and either raises (\<open>None\<close>) or returns an array with one row, of whatever width.
\<close>

type_synonym scaler = "dataframe \<Rightarrow> real list option"

definition numeric_columns :: "string list" where
  "numeric_columns = [''tenure'', ''MonthlyCharges'', ''TotalCharges'']"

text \<open>Lines 133 to 137: the zero frame over the feature columns and the three raw values.\<close>

definition assign_numeric :: "string list \<Rightarrow> customer_profile \<Rightarrow> dataframe" where
  "assign_numeric feature_columns p =
     (let input_data = DataFrame 0 feature_columns;
          input_data = setitem input_data ''tenure'' (of_int (tenureMonths p));
          input_data = setitem input_data ''MonthlyCharges'' (monthlyCharges p);
          input_data = setitem input_data ''TotalCharges'' (totalCharges p)
      in input_data)"

text \<open>Lines 140 to 142: the three columns are selected, transformed and stored back.\<close>

definition apply_scaling :: "scaler \<Rightarrow> dataframe \<Rightarrow> error + dataframe" where
  "apply_scaling scaler input_data =
     (case getitem_list input_data numeric_columns of
        Inl e \<Rightarrow> Inl e
      | Inr batch \<Rightarrow>
          (case scaler batch of
             None \<Rightarrow> Inl TransformError
           | Some row \<Rightarrow> setitem_array input_data numeric_columns row))"

text \<open>Lines 145 to 152: the guarded indicator assignments.\<close>

definition encode_categoricals :: "customer_profile \<Rightarrow> dataframe \<Rightarrow> dataframe" where
  "encode_categoricals p input_data =
     (let input_data =
            (if contractType p \<noteq> ''Month-to-month''
                \<and> ''Contract_'' @ contractType p \<in> set (columns input_data)
             then setitem input_data (''Contract_'' @ contractType p) 1
             else input_data);
          input_data =
            (if internetService p \<noteq> ''DSL''
                \<and> ''InternetService_'' @ internetService p \<in> set (columns input_data)
             then setitem input_data (''InternetService_'' @ internetService p) 1
             else input_data);
          input_data =
            (if paperlessBilling p = ''Yes''
                \<and> ''PaperlessBilling'' \<in> set (columns input_data)
             then setitem input_data ''PaperlessBilling'' 1
             else input_data)
      in input_data)"

text \<open>The whole section: the frame handed to \<^verbatim>\<open>model.predict_proba\<close>, or the exception.\<close>

definition input_data :: "string list \<Rightarrow> scaler \<Rightarrow> customer_profile \<Rightarrow> error + dataframe" where
  "input_data feature_columns scaler p =
     (case apply_scaling scaler (assign_numeric feature_columns p) of
        Inl e \<Rightarrow> Inl e
      | Inr scaled \<Rightarrow> Inr (encode_categoricals p scaled))"

text \<open>Scalers for concrete runs: one that returns the row unchanged, one that raises.\<close>

definition identity_scaler :: scaler where
  "identity_scaler batch = Some (map snd batch)"

definition rejecting_scaler :: scaler where
  "rejecting_scaler batch = None"

text \<open>A scaler that returns a row one entry short of its input.\<close>

definition truncating_scaler :: scaler where
  "truncating_scaler batch = Some (butlast (map snd batch))"

section \<open>Reason generator on the interpreter state\<close>

text \<open>
  Python runs the function on a state: the module-level variables of the script and the
  list objects that exist. A list value is a reference to its object, so that mutation
  through one reference is seen through every other. The variables kept are the loaded
  feature columns and scaler and the widget values; the objects are the reason lists,
  a reference being the position of the object in the store.
\<close>

type_synonym ref = nat

record module_state =
  feature_columns_var :: "string list"
  scaler_var :: scaler
  profile_var :: customer_profile
  store :: "reason list list"

text \<open>\<^verbatim>\<open>[]\<close> creates a new, empty list object and yields the reference to it.\<close>

definition new_list :: "module_state \<Rightarrow> ref \<times> module_state" where
  "new_list s = (length (store s), s\<lparr>store := store s @ [[]]\<rparr>)"

text \<open>\<^verbatim>\<open>r.append(x)\<close> changes the object behind the reference in place.\<close>

definition list_append :: "ref \<Rightarrow> reason \<Rightarrow> module_state \<Rightarrow> module_state" where
  "list_append r x s = s\<lparr>store := (store s)[r := store s ! r @ [x]]\<rparr>"

definition deref :: "module_state \<Rightarrow> ref \<Rightarrow> reason list" where
  "deref s r = store s ! r"

text \<open>
  The body of \<^verbatim>\<open>generate_reasons_with_severity\<close>, statement by statement: the local variable
  \<^verbatim>\<open>reasons\<close> holds the reference of a new list, every \<^verbatim>\<open>reasons.append\<close> changes that
  object, and the reference is returned. No statement of the body names a module-level
  variable.
\<close>

definition call_generate_reasons_with_severity ::
  "int \<Rightarrow> real \<Rightarrow> string \<Rightarrow> string \<Rightarrow> string \<Rightarrow> module_state \<Rightarrow> ref \<times> module_state" where
  "call_generate_reasons_with_severity tenure monthly_charges contract internet_service
       paperless_billing s =
    (let (reasons, s) = new_list s;
         s =
           (if tenure < 12 then
              list_append reasons
                (''Low tenure'', ''High'',
                 ''Customer has a short relationship with the company.'') s
            else if tenure < 24 then
              list_append reasons
                (''Moderate tenure'', ''Medium'',
                 ''Customer loyalty is not fully established.'') s
            else s);
         s =
           (if contract = ''Month-to-month'' then
              list_append reasons
                (''Flexible contract'', ''High'',
                 ''Month-to-month contracts are associated with higher churn risk.'') s
            else
              list_append reasons
                (''Long-term contract'', ''Low'',
                 ''Long-term contracts reduce churn risk.'') s);
         s =
           (if monthly_charges > 70 then
              list_append reasons
                (''High monthly charges'', ''High'',
                 ''Customer may be sensitive to pricing.'') s
            else if monthly_charges > 50 then
              list_append reasons
                (''Moderate monthly charges'', ''Medium'',
                 ''Pricing level can influence churn.'') s
            else s);
         s =
           (if internet_service = ''Fiber optic'' then
              list_append reasons
                (''Fiber optic service'', ''Medium'',
                 ''Higher service expectations may increase churn.'') s
            else s);
         s =
           (if paperless_billing = ''Yes'' then
              list_append reasons
                (''Paperless billing'', ''Low'',
                 ''Digital billing users are often more flexible to switch.'') s
            else s)
     in (reasons, s))"

text \<open>The call of the output section, on a profile, and the list a call returns.\<close>

definition call_explain :: "customer_profile \<Rightarrow> module_state \<Rightarrow> ref \<times> module_state" where
  "call_explain p s =
     call_generate_reasons_with_severity
       (tenureMonths p) (monthlyCharges p) (contractType p) (internetService p)
       (paperlessBilling p) s"

definition returned :: "ref \<times> module_state \<Rightarrow> reason list" where
  "returned rs = deref (snd rs) (fst rs)"

section \<open>Properties of the reason generator\<close>

text \<open>
  Each rule contributes a segment of at most one triple, and the result is the five
  segments in rule order.
\<close>

lemma generate_reasons_append:
  "generate_reasons_with_severity t m c i b =
     (if t < 12 then
        [(''Low tenure'', ''High'', ''Customer has a short relationship with the company.'')]
      else if t < 24 then
        [(''Moderate tenure'', ''Medium'', ''Customer loyalty is not fully established.'')]
      else []) @
     (if c = ''Month-to-month'' then
        [(''Flexible contract'', ''High'',
          ''Month-to-month contracts are associated with higher churn risk.'')]
      else [(''Long-term contract'', ''Low'', ''Long-term contracts reduce churn risk.'')]) @
     (if m > 70 then
        [(''High monthly charges'', ''High'', ''Customer may be sensitive to pricing.'')]
      else if m > 50 then
        [(''Moderate monthly charges'', ''Medium'', ''Pricing level can influence churn.'')]
      else []) @
     (if i = ''Fiber optic'' then
        [(''Fiber optic service'', ''Medium'',
          ''Higher service expectations may increase churn.'')]
      else []) @
     (if b = ''Yes'' then
        [(''Paperless billing'', ''Low'',
          ''Digital billing users are often more flexible to switch.'')]
      else [])"
  unfolding generate_reasons_with_severity_def Let_def
  by simp

text \<open>
  C1 (as the code has it). For every profile the reason generator returns between one and
  five triples, and the triple of the contract rule is among them: the flexible-contract
  triple for a month-to-month contract, the long-term triple otherwise. The lower bound is
  one, not two: only the contract rule fires unconditionally.
\<close>

theorem explain_length_and_contract_entry:
  "1 \<le> length (explain p) \<and> length (explain p) \<le> 5 \<and>
   (if contractType p = ''Month-to-month''
    then (''Flexible contract'', ''High'',
          ''Month-to-month contracts are associated with higher churn risk.'')
    else (''Long-term contract'', ''Low'', ''Long-term contracts reduce churn risk.''))
   \<in> set (explain p)"
  unfolding explain_def generate_reasons_append by simp

text \<open>
  C1 as stated fails: a two-year DSL customer of 30 months paying 40 without paperless
  billing gets a single reason, so "at least two" does not hold.
\<close>

theorem explain_at_least_two_counterexample:
  "\<not> (2 \<le> length (explain \<lparr>tenureMonths = 30, monthlyCharges = 40, totalCharges = 800,
       contractType = ''Two year'', internetService = ''DSL'', paperlessBilling = ''No''\<rparr>) \<and>
      length (explain \<lparr>tenureMonths = 30, monthlyCharges = 40, totalCharges = 800,
       contractType = ''Two year'', internetService = ''DSL'', paperlessBilling = ''No''\<rparr>) \<le> 5)"
  unfolding explain_def generate_reasons_append by simp

text \<open>
  C4. A tenure below 12 puts the low-tenure triple first; a tenure from 12 up to, not
  including, 24 puts the moderate-tenure triple first; from 24 on there is no tenure
  triple. The tenure is any integer, negative ones included.
\<close>

theorem tenure_rule:
  "(tenureMonths p < 12 \<longrightarrow>
      (\<exists>rest. explain p = (''Low tenure'', ''High'', ''Customer has a short relationship with the company.'') # rest)) \<and>
   (12 \<le> tenureMonths p \<and> tenureMonths p < 24 \<longrightarrow>
      (\<exists>rest. explain p = (''Moderate tenure'', ''Medium'', ''Customer loyalty is not fully established.'') # rest)) \<and>
   (24 \<le> tenureMonths p \<longrightarrow>
      filter (\<lambda>r. title r = ''Low tenure'' \<or> title r = ''Moderate tenure'') (explain p) = [])"
  unfolding explain_def generate_reasons_append title_def by simp

theorem tenure_rule_witness:
  "(\<exists>rest. explain \<lparr>tenureMonths = 5, monthlyCharges = 40, totalCharges = 200,
       contractType = ''One year'', internetService = ''DSL'', paperlessBilling = ''No''\<rparr> = (''Low tenure'', ''High'', ''Customer has a short relationship with the company.'') # rest) \<and>
   (\<exists>rest. explain \<lparr>tenureMonths = -3, monthlyCharges = 40, totalCharges = 200,
       contractType = ''One year'', internetService = ''DSL'', paperlessBilling = ''No''\<rparr> = (''Low tenure'', ''High'', ''Customer has a short relationship with the company.'') # rest) \<and>
   (\<exists>rest. explain \<lparr>tenureMonths = 12, monthlyCharges = 40, totalCharges = 200,
       contractType = ''One year'', internetService = ''DSL'', paperlessBilling = ''No''\<rparr> = (''Moderate tenure'', ''Medium'', ''Customer loyalty is not fully established.'') # rest) \<and>
   filter (\<lambda>r. title r = ''Low tenure'' \<or> title r = ''Moderate tenure'')
     (explain \<lparr>tenureMonths = 24, monthlyCharges = 40, totalCharges = 200,
       contractType = ''One year'', internetService = ''DSL'', paperlessBilling = ''No''\<rparr>) = []"
  using tenure_rule [of "\<lparr>tenureMonths = 5, monthlyCharges = 40, totalCharges = 200,
       contractType = ''One year'', internetService = ''DSL'', paperlessBilling = ''No''\<rparr>"]
    tenure_rule [of "\<lparr>tenureMonths = -3, monthlyCharges = 40, totalCharges = 200,
       contractType = ''One year'', internetService = ''DSL'', paperlessBilling = ''No''\<rparr>"]
    tenure_rule [of "\<lparr>tenureMonths = 12, monthlyCharges = 40, totalCharges = 200,
       contractType = ''One year'', internetService = ''DSL'', paperlessBilling = ''No''\<rparr>"]
    tenure_rule [of "\<lparr>tenureMonths = 24, monthlyCharges = 40, totalCharges = 200,
       contractType = ''One year'', internetService = ''DSL'', paperlessBilling = ''No''\<rparr>"]
  by simp

text \<open>
  C5. The monthly-charges triples of the result are: the high one exactly when the charges
  exceed 70, otherwise the moderate one exactly when they exceed 50, otherwise none. Both
  thresholds are strict: charges of exactly 70 give the moderate triple and charges of
  exactly 50 give none.
\<close>

theorem monthly_charges_rule:
  "filter (\<lambda>r. title r = ''High monthly charges'' \<or> title r = ''Moderate monthly charges'') (explain p) =
     (if monthlyCharges p > 70 then
        [(''High monthly charges'', ''High'', ''Customer may be sensitive to pricing.'')]
      else if monthlyCharges p > 50 then
        [(''Moderate monthly charges'', ''Medium'', ''Pricing level can influence churn.'')]
      else []) \<and>
   (monthlyCharges p = 70 \<longrightarrow>
      filter (\<lambda>r. title r = ''High monthly charges'' \<or> title r = ''Moderate monthly charges'') (explain p) =
        [(''Moderate monthly charges'', ''Medium'', ''Pricing level can influence churn.'')]) \<and>
   (monthlyCharges p = 50 \<longrightarrow>
      filter (\<lambda>r. title r = ''High monthly charges'' \<or> title r = ''Moderate monthly charges'') (explain p) = [])"
  unfolding explain_def generate_reasons_append title_def by simp

theorem monthly_charges_rule_witness:
  "filter (\<lambda>r. title r = ''High monthly charges'' \<or> title r = ''Moderate monthly charges'')
     (explain \<lparr>tenureMonths = 30, monthlyCharges = 70, totalCharges = 2100,
       contractType = ''One year'', internetService = ''DSL'', paperlessBilling = ''No''\<rparr>) =
     [(''Moderate monthly charges'', ''Medium'', ''Pricing level can influence churn.'')] \<and>
   filter (\<lambda>r. title r = ''High monthly charges'' \<or> title r = ''Moderate monthly charges'')
     (explain \<lparr>tenureMonths = 30, monthlyCharges = 50, totalCharges = 1500,
       contractType = ''One year'', internetService = ''DSL'', paperlessBilling = ''No''\<rparr>) = [] \<and>
   filter (\<lambda>r. title r = ''High monthly charges'' \<or> title r = ''Moderate monthly charges'')
     (explain \<lparr>tenureMonths = 30, monthlyCharges = 71, totalCharges = 2130,
       contractType = ''One year'', internetService = ''DSL'', paperlessBilling = ''No''\<rparr>) =
     [(''High monthly charges'', ''High'', ''Customer may be sensitive to pricing.'')]"
  using monthly_charges_rule [of "\<lparr>tenureMonths = 30, monthlyCharges = 70, totalCharges = 2100,
       contractType = ''One year'', internetService = ''DSL'', paperlessBilling = ''No''\<rparr>"]
    monthly_charges_rule [of "\<lparr>tenureMonths = 30, monthlyCharges = 50, totalCharges = 1500,
       contractType = ''One year'', internetService = ''DSL'', paperlessBilling = ''No''\<rparr>"]
    monthly_charges_rule [of "\<lparr>tenureMonths = 30, monthlyCharges = 71, totalCharges = 2130,
       contractType = ''One year'', internetService = ''DSL'', paperlessBilling = ''No''\<rparr>"]
  by simp

text \<open>
  C7. The two profiles of the specification: tenure 12, charges 80, month-to-month, fiber
  optic, paperless billing gives the five triples in rule order; two-year contract, DSL, no
  paperless billing, tenure 30, charges 40 gives the long-term-contract triple alone.
\<close>

theorem explain_examples:
  "explain \<lparr>tenureMonths = 12, monthlyCharges = 80, totalCharges = 800,
       contractType = ''Month-to-month'', internetService = ''Fiber optic'', paperlessBilling = ''Yes''\<rparr> =
     [(''Moderate tenure'', ''Medium'', ''Customer loyalty is not fully established.''),
      (''Flexible contract'', ''High'',
          ''Month-to-month contracts are associated with higher churn risk.''),
      (''High monthly charges'', ''High'', ''Customer may be sensitive to pricing.''),
      (''Fiber optic service'', ''Medium'',
          ''Higher service expectations may increase churn.''),
      (''Paperless billing'', ''Low'',
          ''Digital billing users are often more flexible to switch.'')] \<and>
   map label_severity (explain \<lparr>tenureMonths = 12, monthlyCharges = 80, totalCharges = 800,
       contractType = ''Month-to-month'', internetService = ''Fiber optic'', paperlessBilling = ''Yes''\<rparr>) =
     [(''Moderate tenure'', ''Medium''), (''Flexible contract'', ''High''),
      (''High monthly charges'', ''High''), (''Fiber optic service'', ''Medium''),
      (''Paperless billing'', ''Low'')] \<and>
   explain \<lparr>tenureMonths = 30, monthlyCharges = 40, totalCharges = 800,
       contractType = ''Two year'', internetService = ''DSL'', paperlessBilling = ''No''\<rparr> =
     [(''Long-term contract'', ''Low'', ''Long-term contracts reduce churn risk.'')] \<and>
   map label_severity (explain \<lparr>tenureMonths = 30, monthlyCharges = 40, totalCharges = 800,
       contractType = ''Two year'', internetService = ''DSL'', paperlessBilling = ''No''\<rparr>) = [(''Long-term contract'', ''Low'')]"
  unfolding explain_def generate_reasons_append label_severity_def title_def severity_def
  by simp

text \<open>
  C8. For every reason list, those of the generator included, the banner is the high one
  exactly when some triple anywhere in the list has severity High; failing that, the
  medium one exactly when some triple has severity Medium; the low one otherwise. The
  whole list is scanned, not the three top drivers only.
\<close>

theorem severity_indicator_scans_all:
  "severity_indicator reasons =
     (if \<exists>r \<in> set reasons. severity r = ''High'' then St_error ''High''
      else if \<exists>r \<in> set reasons. severity r = ''Medium'' then St_warning ''Medium''
      else St_success ''Low'')"
proof -
  have "severities reasons = map severity reasons"
    by (simp add: severities_def severity_def split_def)
  then have "set (severities reasons) = severity ` set reasons"
    by simp
  then show ?thesis
    unfolding severity_indicator_def by (simp add: image_iff eq_commute)
qed

text \<open>
  A list whose only High triple is the fourth: the banner over the list is the high one,
  the banner over its three top drivers would be the low one.
\<close>

theorem severity_indicator_scans_all_witness:
  "severity_indicator
     [(''Long-term contract'', ''Low'', ''Long-term contracts reduce churn risk.''),
      (''Paperless billing'', ''Low'',
          ''Digital billing users are often more flexible to switch.''),
      (''Paperless billing'', ''Low'',
          ''Digital billing users are often more flexible to switch.''),
      (''High monthly charges'', ''High'', ''Customer may be sensitive to pricing.'')] = St_error ''High'' \<and>
   severity_indicator (top_drivers
     [(''Long-term contract'', ''Low'', ''Long-term contracts reduce churn risk.''),
      (''Paperless billing'', ''Low'',
          ''Digital billing users are often more flexible to switch.''),
      (''Paperless billing'', ''Low'',
          ''Digital billing users are often more flexible to switch.''),
      (''High monthly charges'', ''High'', ''Customer may be sensitive to pricing.'')]) = St_success ''Low'' \<and>
   severity_indicator (explain \<lparr>tenureMonths = 12, monthlyCharges = 80, totalCharges = 800,
       contractType = ''Month-to-month'', internetService = ''Fiber optic'', paperlessBilling = ''Yes''\<rparr>) = St_error ''High'' \<and>
   severity_indicator (explain \<lparr>tenureMonths = 30, monthlyCharges = 40, totalCharges = 800,
       contractType = ''Two year'', internetService = ''DSL'', paperlessBilling = ''No''\<rparr>) = St_success ''Low''"
  using severity_indicator_scans_all [of
     "[(''Long-term contract'', ''Low'', ''Long-term contracts reduce churn risk.''),
      (''Paperless billing'', ''Low'',
          ''Digital billing users are often more flexible to switch.''),
      (''Paperless billing'', ''Low'',
          ''Digital billing users are often more flexible to switch.''),
      (''High monthly charges'', ''High'', ''Customer may be sensitive to pricing.'')]"]
    severity_indicator_scans_all [of "top_drivers
     [(''Long-term contract'', ''Low'', ''Long-term contracts reduce churn risk.''),
      (''Paperless billing'', ''Low'',
          ''Digital billing users are often more flexible to switch.''),
      (''Paperless billing'', ''Low'',
          ''Digital billing users are often more flexible to switch.''),
      (''High monthly charges'', ''High'', ''Customer may be sensitive to pricing.'')]"]
    severity_indicator_scans_all [of "explain \<lparr>tenureMonths = 12, monthlyCharges = 80, totalCharges = 800,
       contractType = ''Month-to-month'', internetService = ''Fiber optic'', paperlessBilling = ''Yes''\<rparr>"]
    severity_indicator_scans_all [of "explain \<lparr>tenureMonths = 30, monthlyCharges = 40, totalCharges = 800,
       contractType = ''Two year'', internetService = ''DSL'', paperlessBilling = ''No''\<rparr>"]
  unfolding explain_def generate_reasons_append
  by (simp add: severity_def top_drivers_def)

text \<open>
  On the interpreter state, a call of the generator from any state yields the reference of
  a new list object that holds the triples of the pure generator, and changes nothing
  else. The appends all go to the object the call created.
\<close>

lemma list_append_fresh:
  "list_append (length (store s)) x (s\<lparr>store := store s @ [xs]\<rparr>) =
     s\<lparr>store := store s @ [xs @ [x]]\<rparr>"
  by (simp add: list_append_def)

lemma append_if_fresh:
  "(if b then list_append (length (store s)) x (s\<lparr>store := store s @ [xs]\<rparr>)
    else s\<lparr>store := store s @ [xs]\<rparr>) =
     s\<lparr>store := store s @ [xs @ (if b then [x] else [])]\<rparr>"
  by (simp add: list_append_fresh)

lemma append_if_else_fresh:
  "(if b then list_append (length (store s)) x (s\<lparr>store := store s @ [xs]\<rparr>)
    else list_append (length (store s)) y (s\<lparr>store := store s @ [xs]\<rparr>)) =
     s\<lparr>store := store s @ [xs @ (if b then [x] else [y])]\<rparr>"
  by (simp add: list_append_fresh)

lemma append_if_longer:
  "(if b then list_append (length (store s)) x (s\<lparr>store := store s @ [xs]\<rparr>)
    else s\<lparr>store := store s @ [xs @ ys]\<rparr>) =
     s\<lparr>store := store s @ [xs @ (if b then [x] else ys)]\<rparr>"
  by (simp add: list_append_fresh)

lemma call_generate_reasons:
  "call_generate_reasons_with_severity t m c i b s =
     (length (store s), s\<lparr>store := store s @ [generate_reasons_with_severity t m c i b]\<rparr>)"
  unfolding call_generate_reasons_with_severity_def new_list_def Let_def prod.case
    generate_reasons_append
  apply (simp only: append_if_fresh append_if_else_fresh append_if_longer)
  apply (simp only: append_assoc append_Nil)
  done

text \<open>
  C9. The reason generator is deterministic and pure. Two calls on the same profile, from
  any two interpreter states, return identical sequences of triples (titles, severities,
  explanations and order), namely the sequence determined by the profile alone. A call has
  no side effect: the state after it is the state before it with one new list object, the
  returned one, so every module-level variable and every list object that existed keeps
  its value.
\<close>

theorem explain_deterministic:
  "returned (call_explain p s) = returned (call_explain p t) \<and>
   returned (call_explain p s) = explain p \<and>
   fst (call_explain p s) = length (store s) \<and>
   snd (call_explain p s) = s\<lparr>store := store s @ [explain p]\<rparr>"
  by (simp add: call_explain_def explain_def call_generate_reasons returned_def deref_def)

text \<open>
  Two calls on one profile from states that differ in every variable and in the lists that
  exist return the same list; a call from a state with one list leaves that list as it was.
\<close>

theorem explain_deterministic_witness:
  "returned (call_explain
      \<lparr>tenureMonths = 12, monthlyCharges = 80, totalCharges = 800,
        contractType = ''Month-to-month'', internetService = ''Fiber optic'',
        paperlessBilling = ''Yes''\<rparr>
      \<lparr>feature_columns_var = [], scaler_var = identity_scaler,
        profile_var = \<lparr>tenureMonths = 0, monthlyCharges = 0, totalCharges = 0,
          contractType = ''Two year'', internetService = ''DSL'', paperlessBilling = ''No''\<rparr>,
        store = []\<rparr>) =
   returned (call_explain
      \<lparr>tenureMonths = 12, monthlyCharges = 80, totalCharges = 800,
        contractType = ''Month-to-month'', internetService = ''Fiber optic'',
        paperlessBilling = ''Yes''\<rparr>
      \<lparr>feature_columns_var = [''tenure''], scaler_var = rejecting_scaler,
        profile_var = \<lparr>tenureMonths = 70, monthlyCharges = 99, totalCharges = 5000,
          contractType = ''Month-to-month'', internetService = ''No'',
          paperlessBilling = ''Yes''\<rparr>,
        store = [[(''Low tenure'', ''High'',
                   ''Customer has a short relationship with the company.'')]]\<rparr>) \<and>
   store (snd (call_explain
      \<lparr>tenureMonths = 30, monthlyCharges = 40, totalCharges = 800,
        contractType = ''Two year'', internetService = ''DSL'', paperlessBilling = ''No''\<rparr>
      \<lparr>feature_columns_var = [''tenure''], scaler_var = rejecting_scaler,
        profile_var = \<lparr>tenureMonths = 70, monthlyCharges = 99, totalCharges = 5000,
          contractType = ''Month-to-month'', internetService = ''No'',
          paperlessBilling = ''Yes''\<rparr>,
        store = [[(''Low tenure'', ''High'',
                   ''Customer has a short relationship with the company.'')]]\<rparr>)) =
     [[(''Low tenure'', ''High'', ''Customer has a short relationship with the company.'')],
      [(''Long-term contract'', ''Low'', ''Long-term contracts reduce churn risk.'')]]"
  using
    explain_deterministic [of
      "\<lparr>tenureMonths = 12, monthlyCharges = 80, totalCharges = 800,
        contractType = ''Month-to-month'', internetService = ''Fiber optic'',
        paperlessBilling = ''Yes''\<rparr>"
      "\<lparr>feature_columns_var = [], scaler_var = identity_scaler,
        profile_var = \<lparr>tenureMonths = 0, monthlyCharges = 0, totalCharges = 0,
          contractType = ''Two year'', internetService = ''DSL'', paperlessBilling = ''No''\<rparr>,
        store = []\<rparr>"
      "\<lparr>feature_columns_var = [''tenure''], scaler_var = rejecting_scaler,
        profile_var = \<lparr>tenureMonths = 70, monthlyCharges = 99, totalCharges = 5000,
          contractType = ''Month-to-month'', internetService = ''No'',
          paperlessBilling = ''Yes''\<rparr>,
        store = [[(''Low tenure'', ''High'',
                   ''Customer has a short relationship with the company.'')]]\<rparr>"]
    explain_deterministic [of
      "\<lparr>tenureMonths = 30, monthlyCharges = 40, totalCharges = 800,
        contractType = ''Two year'', internetService = ''DSL'', paperlessBilling = ''No''\<rparr>"
      "\<lparr>feature_columns_var = [''tenure''], scaler_var = rejecting_scaler,
        profile_var = \<lparr>tenureMonths = 70, monthlyCharges = 99, totalCharges = 5000,
          contractType = ''Month-to-month'', internetService = ''No'',
          paperlessBilling = ''Yes''\<rparr>,
        store = [[(''Low tenure'', ''High'',
                   ''Customer has a short relationship with the company.'')]]\<rparr>"]
  unfolding explain_def generate_reasons_append
  by simp

text \<open>
  C10. The reasons do not depend on the total charges: two profiles that differ in the
  total charges only get the same sequence of triples.
\<close>

theorem explain_ignores_total_charges:
  "explain (p\<lparr>totalCharges := t\<rparr>) = explain p"
  by (simp add: explain_def)

section \<open>Properties of the data frame operations\<close>

subsection \<open>Column names\<close>

lemma columns_DataFrame: "columns (DataFrame v cols) = cols"
  by (simp add: columns_def DataFrame_def comp_def)

lemma columns_setitem:
  "columns (setitem df key v) =
     (if key \<in> set (columns df) then columns df else columns df @ [key])"
  by (induction df) (auto simp: columns_def setitem_def)

lemma columns_iset: "columns (iset df ivs) = columns df"
proof (induction df ivs rule: iset.induct)
  case (1 df)
  show ?case by simp
next
  case (2 df i v ivs)
  have "columns (df[i := (fst (df ! i), v)]) = columns df"
  proof (cases "i < length df")
    case True
    then have "(map fst df)[i := map fst df ! i] = map fst df"
      by (simp only: list_update_id)
    with True show ?thesis
      by (simp add: columns_def map_update)
  next
    case False
    then have "df[i := (fst (df ! i), v)] = df"
      by (simp add: list_update_beyond)
    then show ?thesis by simp
  qed
  with 2 show ?case by simp
qed

lemma columns_setitem_array:
  "setitem_array df keys row = Inr df' \<Longrightarrow> columns df' = columns df"
  by (auto simp: setitem_array_def Let_def columns_iset split: if_splits)

lemma columns_encode_categoricals: "columns (encode_categoricals p df) = columns df"
  by (simp add: encode_categoricals_def Let_def columns_setitem)

lemma columns_assign_numeric:
  "columns (assign_numeric fc p) = fc @ filter (\<lambda>n. n \<notin> set fc) numeric_columns"
  by (simp add: assign_numeric_def Let_def columns_setitem columns_DataFrame numeric_columns_def)

lemma columns_apply_scaling:
  "apply_scaling sc df = Inr df' \<Longrightarrow> columns df' = columns df"
  by (auto simp: apply_scaling_def columns_setitem_array split: sum.splits option.splits)

subsection \<open>Column values\<close>

lemma length_getitem: "length (getitem df n) = count_list (columns df) n"
  by (induction df) (auto simp: getitem_def columns_def)

lemma getitem_Nil_iff: "getitem df n = [] \<longleftrightarrow> n \<notin> set (columns df)"
  by (induction df) (auto simp: getitem_def columns_def)

lemma getitem_DataFrame: "getitem (DataFrame v cols) n = replicate (count_list cols n) v"
  by (induction cols) (auto simp: getitem_def DataFrame_def)

lemma getitem_overwrite_other:
  "n \<noteq> key \<Longrightarrow>
     getitem (map (\<lambda>(c, x). if c = key then (c, v) else (c, x)) df) n = getitem df n"
  by (induction df) (auto simp: getitem_def split: if_splits)

lemma getitem_setitem_other: "n \<noteq> key \<Longrightarrow> getitem (setitem df key v) n = getitem df n"
proof (cases "key \<in> set (columns df)")
  case True
  assume "n \<noteq> key"
  with True show ?thesis
    by (simp add: setitem_def getitem_overwrite_other)
next
  case False
  assume "n \<noteq> key"
  with False show ?thesis
    by (simp add: setitem_def getitem_def)
qed

lemma getitem_overwrite:
  "getitem (map (\<lambda>(c, x). if c = key then (c, v) else (c, x)) df) key =
     replicate (count_list (columns df) key) v"
  by (induction df) (auto simp: getitem_def columns_def split: if_splits)

lemma getitem_setitem_same:
  "getitem (setitem df key v) key = replicate (max 1 (count_list (columns df) key)) v"
proof (cases "key \<in> set (columns df)")
  case True
  then have "count_list (columns df) key \<noteq> 0"
    by (simp add: count_list_0_iff)
  then have "max 1 (count_list (columns df) key) = count_list (columns df) key"
    by simp
  with True show ?thesis
    by (simp add: setitem_def getitem_overwrite)
next
  case False
  then have "count_list (columns df) key = 0" "getitem df key = []"
    by (simp_all add: count_list_0_iff getitem_Nil_iff)
  with False show ?thesis
    by (simp add: setitem_def getitem_def)
qed

lemma getitem_update_other:
  "i < length df \<longrightarrow> fst (df ! i) \<noteq> n \<Longrightarrow>
     getitem (df[i := (fst (df ! i), v)]) n = getitem df n"
proof (induction df arbitrary: i)
  case Nil
  show ?case by simp
next
  case (Cons a df)
  show ?case
  proof (cases i)
    case 0
    with Cons.prems show ?thesis
      by (simp add: getitem_def split_def)
  next
    case (Suc j)
    with Cons.prems have "j < length df \<longrightarrow> fst (df ! j) \<noteq> n"
      by simp
    then have "getitem (df[j := (fst (df ! j), v)]) n = getitem df n"
      by (rule Cons.IH)
    with Suc show ?thesis
      by (simp add: getitem_def)
  qed
qed

lemma fst_nth_update: "fst (df[i := (fst (df ! i), v)] ! j) = fst (df ! j)"
  by (cases "i < length df"; cases "i = j") (simp_all add: list_update_beyond)

lemma getitem_iset_other:
  "\<forall>i \<in> fst ` set ivs. i < length df \<longrightarrow> fst (df ! i) \<noteq> n \<Longrightarrow>
     getitem (iset df ivs) n = getitem df n"
proof (induction df ivs rule: iset.induct)
  case (1 df)
  show ?case by simp
next
  case (2 df i v ivs)
  let ?df = "df[i := (fst (df ! i), v)]"
  from "2.prems" have here: "i < length df \<longrightarrow> fst (df ! i) \<noteq> n"
    by simp
  from "2.prems" have "\<forall>j \<in> fst ` set ivs. j < length ?df \<longrightarrow> fst (?df ! j) \<noteq> n"
    by (simp add: fst_nth_update)
  then have "getitem (iset ?df ivs) n = getitem ?df n"
    by (rule "2.IH")
  also from here have "\<dots> = getitem df n"
    by (rule getitem_update_other)
  finally show ?case by simp
qed

lemma get_indexer_names:
  "i \<in> set (get_indexer df keys) \<Longrightarrow> i < length df \<and> fst (df ! i) \<in> set keys"
  by (auto simp: get_indexer_def)

lemma getitem_setitem_array_other:
  assumes "setitem_array df keys row = Inr df'" and "n \<notin> set keys"
  shows "getitem df' n = getitem df n"
proof -
  from assms(1) have df': "df' = iset df (zip (get_indexer df keys) row)"
    by (auto simp: setitem_array_def Let_def split: if_splits)
  have "\<forall>i \<in> fst ` set (zip (get_indexer df keys) row). i < length df \<longrightarrow> fst (df ! i) \<noteq> n"
  proof
    fix i assume "i \<in> fst ` set (zip (get_indexer df keys) row)"
    then have "i \<in> set (get_indexer df keys)"
      by (auto dest: set_zip_leftD)
    then have "fst (df ! i) \<in> set keys"
      by (simp add: get_indexer_names)
    with assms(2) show "i < length df \<longrightarrow> fst (df ! i) \<noteq> n"
      by auto
  qed
  then show ?thesis
    unfolding df' by (rule getitem_iset_other)
qed

lemma getitem_apply_scaling_other:
  "apply_scaling sc df = Inr df' \<Longrightarrow> n \<notin> set numeric_columns \<Longrightarrow> getitem df' n = getitem df n"
  by (auto simp: apply_scaling_def getitem_setitem_array_other split: sum.splits option.splits)

lemma getitem_assign_numeric_other:
  "n \<notin> set numeric_columns \<Longrightarrow>
     getitem (assign_numeric fc p) n = replicate (count_list fc n) 0"
  by (simp add: assign_numeric_def Let_def numeric_columns_def getitem_setitem_other
      getitem_DataFrame)

subsection \<open>The batch handed to the scaler\<close>

lemma filter_column: "map (Pair k) (getitem df k) = filter (\<lambda>(c, x). c = k) df"
  by (induction df) (auto simp: getitem_def)

lemma length_get_indexer:
  "length (get_indexer df keys) = length (concat (map (\<lambda>k. filter (\<lambda>(c, x). c = k) df) keys))"
proof -
  have one: "length (filter (\<lambda>i. fst (df ! i) = k) [0..<length df]) =
             length (filter (\<lambda>(c, x). c = k) df)" for k
  proof -
    have "filter (\<lambda>(c, x). c = k) df = filter (\<lambda>(c, x). c = k) (map ((!) df) [0..<length df])"
      by (simp only: map_nth)
    also have "\<dots> = map ((!) df) (filter (\<lambda>i. fst (df ! i) = k) [0..<length df])"
      by (simp add: filter_map comp_def split_def)
    finally show ?thesis by simp
  qed
  show ?thesis
    by (induction keys) (simp_all add: get_indexer_def one)
qed

lemma getitem_assign_numeric_tenure:
  "getitem (assign_numeric fc p) ''tenure'' =
     replicate (max 1 (count_list fc ''tenure'')) (of_int (tenureMonths p))"
  by (simp add: assign_numeric_def Let_def getitem_setitem_other getitem_setitem_same
      columns_DataFrame)

lemma getitem_assign_numeric_monthly:
  "getitem (assign_numeric fc p) ''MonthlyCharges'' =
     replicate (max 1 (count_list fc ''MonthlyCharges'')) (monthlyCharges p)"
  by (simp add: assign_numeric_def Let_def getitem_setitem_other getitem_setitem_same
      columns_DataFrame columns_setitem)

lemma getitem_assign_numeric_total:
  "getitem (assign_numeric fc p) ''TotalCharges'' =
     replicate (max 1 (count_list fc ''TotalCharges'')) (totalCharges p)"
  by (simp add: assign_numeric_def Let_def getitem_setitem_other getitem_setitem_same
      columns_DataFrame columns_setitem)

lemma getitem_list_assign_numeric:
  "getitem_list (assign_numeric fc p) numeric_columns =
     Inr (replicate (max 1 (count_list fc ''tenure'')) (''tenure'', of_int (tenureMonths p)) @
          replicate (max 1 (count_list fc ''MonthlyCharges''))
            (''MonthlyCharges'', monthlyCharges p) @
          replicate (max 1 (count_list fc ''TotalCharges'')) (''TotalCharges'', totalCharges p))"
proof -
  have "\<not> list_ex (\<lambda>k. k \<notin> set (columns (assign_numeric fc p))) numeric_columns"
    by (auto simp: columns_assign_numeric list_ex_iff)
  then show ?thesis
    by (simp add: getitem_list_def filter_column [symmetric] numeric_columns_def
        getitem_assign_numeric_tenure getitem_assign_numeric_monthly
        getitem_assign_numeric_total)
qed

lemma apply_scaling_Inl_iff:
  assumes "getitem_list df numeric_columns = Inr batch"
  shows "apply_scaling sc df = Inl e \<longleftrightarrow>
           (sc batch = None \<and> e = TransformError) \<or>
           (\<exists>row. sc batch = Some row \<and> length row \<noteq> length batch \<and> e = ValueError)"
proof -
  from assms have batch: "batch = concat (map (\<lambda>k. filter (\<lambda>(c, x). c = k) df) numeric_columns)"
    by (auto simp: getitem_list_def split: if_splits)
  then have width: "length (get_indexer df numeric_columns) = length batch"
    by (simp add: length_get_indexer)
  show ?thesis
  proof (cases "sc batch")
    case None
    with assms show ?thesis
      by (auto simp: apply_scaling_def)
  next
    case (Some row)
    with assms width show ?thesis
      by (auto simp: apply_scaling_def setitem_array_def Let_def)
  qed
qed

subsection \<open>Guarded indicator assignments\<close>

lemma getitem_guarded_setitem:
  "getitem (if g \<and> k \<in> set (columns df) then setitem df k v else df) n =
     (if g \<and> n = k then replicate (count_list (columns df) k) v else getitem df n)"
proof (cases "k \<in> set (columns df)")
  case True
  then have "count_list (columns df) k \<noteq> 0"
    by (simp add: count_list_0_iff)
  then have "max 1 (count_list (columns df) k) = count_list (columns df) k"
    by simp
  with True show ?thesis
    by (simp add: getitem_setitem_same getitem_setitem_other)
next
  case False
  then have "count_list (columns df) k = 0" "getitem df k = []"
    by (simp_all add: count_list_0_iff getitem_Nil_iff)
  with False show ?thesis
    by simp
qed

lemma columns_guarded_setitem:
  "columns (if g \<and> k \<in> set (columns df) then setitem df k v else df) = columns df"
  by (simp add: columns_setitem)

lemma count_list_scaled:
  assumes "apply_scaling sc (assign_numeric fc p) = Inr scaled" and "n \<notin> set numeric_columns"
  shows "count_list (columns scaled) n = count_list fc n"
proof -
  from assms(1) have "columns scaled = fc @ filter (\<lambda>n. n \<notin> set fc) numeric_columns"
    by (simp add: columns_apply_scaling columns_assign_numeric)
  moreover from assms(2) have "count_list (filter (\<lambda>n. n \<notin> set fc) numeric_columns) n = 0"
    by (simp add: count_list_0_iff)
  ultimately show ?thesis by simp
qed

lemma getitem_scaled:
  assumes "apply_scaling sc (assign_numeric fc p) = Inr scaled" and "n \<notin> set numeric_columns"
  shows "getitem scaled n = replicate (count_list fc n) 0"
  using assms by (simp add: getitem_apply_scaling_other getitem_assign_numeric_other)

subsection \<open>Unfolding a concrete run\<close>

lemmas run_defs = input_data_def assign_numeric_def apply_scaling_def DataFrame_def setitem_def
      columns_def getitem_list_def numeric_columns_def setitem_array_def
      get_indexer_def encode_categoricals_def Let_def getitem_def

section \<open>Properties of the input data\<close>

text \<open>
  C2 (as the code has it). Whenever the input data is built, its columns are the feature
  columns followed by those of \<^verbatim>\<open>tenure\<close>, \<^verbatim>\<open>MonthlyCharges\<close>, \<^verbatim>\<open>TotalCharges\<close> that the
  feature columns lack: assigning one of the three when it is absent inserts a column. So
  the frame has exactly the feature columns (same names, same number) exactly when the
  feature columns contain all three names.
\<close>

theorem input_data_columns:
  "input_data fc sc p = Inr fv \<Longrightarrow>
     columns fv = fc @ filter (\<lambda>n. n \<notin> set fc) numeric_columns \<and>
     length fv = length fc + length (filter (\<lambda>n. n \<notin> set fc) numeric_columns) \<and>
     (columns fv = fc \<longleftrightarrow> set numeric_columns \<subseteq> set fc)"
proof -
  assume ok: "input_data fc sc p = Inr fv"
  then have cols: "columns fv = fc @ filter (\<lambda>n. n \<notin> set fc) numeric_columns"
    by (auto simp: input_data_def columns_encode_categoricals columns_assign_numeric
        dest: columns_apply_scaling split: sum.splits)
  have "length fv = length (columns fv)"
    by (simp add: columns_def)
  with cols have len: "length fv = length fc + length (filter (\<lambda>n. n \<notin> set fc) numeric_columns)"
    by simp
  have "(filter (\<lambda>n. n \<notin> set fc) numeric_columns = []) \<longleftrightarrow> set numeric_columns \<subseteq> set fc"
    by (auto simp: filter_empty_conv)
  with cols have "columns fv = fc \<longleftrightarrow> set numeric_columns \<subseteq> set fc"
    by simp
  with cols len show ?thesis by simp
qed

text \<open>
  A feature list with all three numeric names and one indicator: the frame has exactly
  the four feature columns.
\<close>

theorem input_data_columns_witness:
  "input_data [''tenure'', ''MonthlyCharges'', ''TotalCharges'', ''Contract_Two year'']
     identity_scaler
     \<lparr>tenureMonths = 30, monthlyCharges = 40, totalCharges = 1200,
       contractType = ''Two year'', internetService = ''DSL'', paperlessBilling = ''No''\<rparr> =
   Inr [(''tenure'', 30), (''MonthlyCharges'', 40), (''TotalCharges'', 1200),
        (''Contract_Two year'', 1)] \<and>
   columns [(''tenure'', 30), (''MonthlyCharges'', 40), (''TotalCharges'', 1200),
        (''Contract_Two year'', 1)] =
     [''tenure'', ''MonthlyCharges'', ''TotalCharges'', ''Contract_Two year'']"
proof -
  have run: "input_data [''tenure'', ''MonthlyCharges'', ''TotalCharges'', ''Contract_Two year'']
     identity_scaler
     \<lparr>tenureMonths = 30, monthlyCharges = 40, totalCharges = 1200,
       contractType = ''Two year'', internetService = ''DSL'', paperlessBilling = ''No''\<rparr> =
   Inr [(''tenure'', 30), (''MonthlyCharges'', 40), (''TotalCharges'', 1200),
        (''Contract_Two year'', 1)]"
    by (simp add: run_defs identity_scaler_def)
  from input_data_columns [OF run] run show ?thesis
    by (simp add: numeric_columns_def)
qed

text \<open>
  C2 as stated fails: over the single feature column \<^verbatim>\<open>PaperlessBilling\<close> the three
  assignments insert three columns, and the frame has four columns, not one.
\<close>

theorem input_data_columns_counterexample:
  "input_data [''PaperlessBilling''] identity_scaler
     \<lparr>tenureMonths = 12, monthlyCharges = 80, totalCharges = 800,
       contractType = ''Month-to-month'', internetService = ''Fiber optic'',
       paperlessBilling = ''Yes''\<rparr> =
   Inr [(''PaperlessBilling'', 1), (''tenure'', 12), (''MonthlyCharges'', 80),
        (''TotalCharges'', 800)] \<and>
   columns [(''PaperlessBilling'', 1), (''tenure'', 12), (''MonthlyCharges'', 80),
        (''TotalCharges'', 800)] \<noteq> [''PaperlessBilling'']"
  by (simp add: run_defs identity_scaler_def)

text \<open>
  C3 (as the code has it). Building the input data raises exactly when the scaler raises
  on the batch of the three numeric columns or returns a row of another width than the
  batch. The batch always exists, also over an empty list of feature columns, where it is
  the three inserted columns, so the empty list raises nothing by itself. An error carries
  no frame, and the indicator assignments contribute no error.
\<close>

theorem input_data_raises_iff:
  "\<exists>batch.
     batch =
       replicate (max 1 (count_list fc ''tenure'')) (''tenure'', of_int (tenureMonths p)) @
       replicate (max 1 (count_list fc ''MonthlyCharges'')) (''MonthlyCharges'', monthlyCharges p) @
       replicate (max 1 (count_list fc ''TotalCharges'')) (''TotalCharges'', totalCharges p) \<and>
     getitem_list (assign_numeric fc p) numeric_columns = Inr batch \<and>
     (input_data fc sc p = Inl e \<longleftrightarrow>
        (sc batch = None \<and> e = TransformError) \<or>
        (\<exists>row. sc batch = Some row \<and> length row \<noteq> length batch \<and> e = ValueError))"
proof -
  have "input_data fc sc p = Inl e \<longleftrightarrow> apply_scaling sc (assign_numeric fc p) = Inl e"
    by (simp add: input_data_def split: sum.splits)
  with apply_scaling_Inl_iff [OF getitem_list_assign_numeric, of sc fc p e]
  show ?thesis
    by (simp add: getitem_list_assign_numeric)
qed

text \<open>
  A scaler that raises gives the transform error, a scaler that returns two values for
  three columns gives the value error, and the empty feature list with an accepting scaler
  gives neither.
\<close>

theorem input_data_raises_iff_witness:
  "input_data [''tenure'', ''MonthlyCharges'', ''TotalCharges''] rejecting_scaler
     \<lparr>tenureMonths = 12, monthlyCharges = 80, totalCharges = 800,
       contractType = ''One year'', internetService = ''DSL'', paperlessBilling = ''No''\<rparr> =
     Inl TransformError \<and>
   input_data [''tenure'', ''MonthlyCharges'', ''TotalCharges''] truncating_scaler
     \<lparr>tenureMonths = 12, monthlyCharges = 80, totalCharges = 800,
       contractType = ''One year'', internetService = ''DSL'', paperlessBilling = ''No''\<rparr> =
     Inl ValueError \<and>
   input_data [] identity_scaler
     \<lparr>tenureMonths = 12, monthlyCharges = 80, totalCharges = 800,
       contractType = ''One year'', internetService = ''DSL'', paperlessBilling = ''No''\<rparr> \<noteq>
     Inl TransformError \<and>
   input_data [] identity_scaler
     \<lparr>tenureMonths = 12, monthlyCharges = 80, totalCharges = 800,
       contractType = ''One year'', internetService = ''DSL'', paperlessBilling = ''No''\<rparr> \<noteq>
     Inl ValueError"
  using
    input_data_raises_iff [of "[''tenure'', ''MonthlyCharges'', ''TotalCharges'']"
      "\<lparr>tenureMonths = 12, monthlyCharges = 80, totalCharges = 800,
       contractType = ''One year'', internetService = ''DSL'', paperlessBilling = ''No''\<rparr>"
      rejecting_scaler TransformError]
    input_data_raises_iff [of "[''tenure'', ''MonthlyCharges'', ''TotalCharges'']"
      "\<lparr>tenureMonths = 12, monthlyCharges = 80, totalCharges = 800,
       contractType = ''One year'', internetService = ''DSL'', paperlessBilling = ''No''\<rparr>"
      truncating_scaler ValueError]
    input_data_raises_iff [of "[]"
      "\<lparr>tenureMonths = 12, monthlyCharges = 80, totalCharges = 800,
       contractType = ''One year'', internetService = ''DSL'', paperlessBilling = ''No''\<rparr>"
      identity_scaler TransformError]
    input_data_raises_iff [of "[]"
      "\<lparr>tenureMonths = 12, monthlyCharges = 80, totalCharges = 800,
       contractType = ''One year'', internetService = ''DSL'', paperlessBilling = ''No''\<rparr>"
      identity_scaler ValueError]
  by (simp add: rejecting_scaler_def truncating_scaler_def identity_scaler_def)

text \<open>
  C3 as stated fails: over the empty list of feature columns, with a scaler that accepts,
  nothing is raised and a frame of the three inserted columns is returned.
\<close>

theorem input_data_raises_iff_counterexample:
  "input_data [] identity_scaler
     \<lparr>tenureMonths = 12, monthlyCharges = 80, totalCharges = 800,
       contractType = ''Month-to-month'', internetService = ''Fiber optic'',
       paperlessBilling = ''Yes''\<rparr> =
   Inr [(''tenure'', 12), (''MonthlyCharges'', 80), (''TotalCharges'', 800)]"
  by (simp add: run_defs identity_scaler_def)

text \<open>
  C6. Once the scaler has accepted the batch, the input data is built, and in it: every
  column \<^verbatim>\<open>Contract_c\<close> holds 1 when \<open>c\<close> is the profile's contract and not
  \<^verbatim>\<open>Month-to-month\<close>, else 0; every column \<^verbatim>\<open>InternetService_s\<close> holds 1 when \<open>s\<close> is the
  profile's internet service and not \<^verbatim>\<open>DSL\<close>, else 0; the column \<^verbatim>\<open>PaperlessBilling\<close>
  holds 1 when paperless billing is \<^verbatim>\<open>Yes\<close>, else 0. Each of these columns occurs as
  often as among the feature columns: an absent one is not created, and nothing is raised
  for it.
\<close>

theorem categorical_indicators:
  assumes "apply_scaling sc (assign_numeric fc p) = Inr scaled"
  shows "\<exists>fv. input_data fc sc p = Inr fv \<and>
     getitem fv (''Contract_'' @ c) =
       replicate (count_list fc (''Contract_'' @ c))
         (if c = contractType p \<and> c \<noteq> ''Month-to-month'' then 1 else 0) \<and>
     getitem fv (''InternetService_'' @ s) =
       replicate (count_list fc (''InternetService_'' @ s))
         (if s = internetService p \<and> s \<noteq> ''DSL'' then 1 else 0) \<and>
     getitem fv ''PaperlessBilling'' =
       replicate (count_list fc ''PaperlessBilling'')
         (if paperlessBilling p = ''Yes'' then 1 else 0) \<and>
     count_list (columns fv) (''Contract_'' @ c) = count_list fc (''Contract_'' @ c) \<and>
     count_list (columns fv) (''InternetService_'' @ s) =
       count_list fc (''InternetService_'' @ s) \<and>
     count_list (columns fv) ''PaperlessBilling'' = count_list fc ''PaperlessBilling''"
proof -
  define df1 where "df1 =
    (if contractType p \<noteq> ''Month-to-month'' \<and> ''Contract_'' @ contractType p \<in> set (columns scaled)
     then setitem scaled (''Contract_'' @ contractType p) 1 else scaled)"
  define df2 where "df2 =
    (if internetService p \<noteq> ''DSL'' \<and> ''InternetService_'' @ internetService p \<in> set (columns df1)
     then setitem df1 (''InternetService_'' @ internetService p) 1 else df1)"
  define df3 where "df3 =
    (if paperlessBilling p = ''Yes'' \<and> ''PaperlessBilling'' \<in> set (columns df2)
     then setitem df2 ''PaperlessBilling'' 1 else df2)"
  have "encode_categoricals p scaled = df3"
    by (simp add: encode_categoricals_def Let_def df1_def df2_def df3_def)
  with assms have run: "input_data fc sc p = Inr df3"
    by (simp add: input_data_def)
  have cols: "columns df1 = columns scaled" "columns df2 = columns df1" "columns df3 = columns df2"
    unfolding df1_def df2_def df3_def by (rule columns_guarded_setitem)+
  have step1: "getitem df1 n =
      (if contractType p \<noteq> ''Month-to-month'' \<and> n = ''Contract_'' @ contractType p
       then replicate (count_list (columns scaled) (''Contract_'' @ contractType p)) 1
       else getitem scaled n)" for n
    unfolding df1_def by (rule getitem_guarded_setitem)
  have step2: "getitem df2 n =
      (if internetService p \<noteq> ''DSL'' \<and> n = ''InternetService_'' @ internetService p
       then replicate (count_list (columns df1) (''InternetService_'' @ internetService p)) 1
       else getitem df1 n)" for n
    unfolding df2_def by (rule getitem_guarded_setitem)
  have step3: "getitem df3 n =
      (if paperlessBilling p = ''Yes'' \<and> n = ''PaperlessBilling''
       then replicate (count_list (columns df2) ''PaperlessBilling'') 1
       else getitem df2 n)" for n
    unfolding df3_def by (rule getitem_guarded_setitem)
  note base = getitem_scaled [OF assms] count_list_scaled [OF assms]
  have contract: "getitem df3 (''Contract_'' @ c) =
       replicate (count_list fc (''Contract_'' @ c))
         (if c = contractType p \<and> c \<noteq> ''Month-to-month'' then 1 else 0)"
    by (auto simp: step3 step2 step1 cols base numeric_columns_def)
  have internet: "getitem df3 (''InternetService_'' @ s) =
       replicate (count_list fc (''InternetService_'' @ s))
         (if s = internetService p \<and> s \<noteq> ''DSL'' then 1 else 0)"
    by (auto simp: step3 step2 step1 cols base numeric_columns_def)
  have paperless: "getitem df3 ''PaperlessBilling'' =
       replicate (count_list fc ''PaperlessBilling'')
         (if paperlessBilling p = ''Yes'' then 1 else 0)"
    by (auto simp: step3 step2 step1 cols base numeric_columns_def)
  have counts:
    "count_list (columns df3) (''Contract_'' @ c) = count_list fc (''Contract_'' @ c)"
    "count_list (columns df3) (''InternetService_'' @ s) =
       count_list fc (''InternetService_'' @ s)"
    "count_list (columns df3) ''PaperlessBilling'' = count_list fc ''PaperlessBilling''"
    by (simp_all add: cols base numeric_columns_def)
  from run contract internet paperless counts show ?thesis
    by simp
qed

text \<open>
  First a profile whose three indicator columns are all present and all set; then a
  one-year contract, DSL and paperless billing over feature columns that have none of the
  matching indicator columns: the frame is built and none of them is created.
\<close>

theorem categorical_indicators_witness:
  "(\<exists>fv. input_data
        [''tenure'', ''MonthlyCharges'', ''TotalCharges'', ''Contract_One year'',
         ''Contract_Two year'', ''InternetService_Fiber optic'', ''InternetService_No'',
         ''PaperlessBilling'']
        identity_scaler
        \<lparr>tenureMonths = 30, monthlyCharges = 40, totalCharges = 1200,
          contractType = ''Two year'', internetService = ''Fiber optic'',
          paperlessBilling = ''Yes''\<rparr> = Inr fv \<and>
      getitem fv ''Contract_Two year'' = [1] \<and>
      getitem fv ''InternetService_Fiber optic'' = [1] \<and>
      getitem fv ''PaperlessBilling'' = [1]) \<and>
   (\<exists>fv. input_data
        [''tenure'', ''MonthlyCharges'', ''TotalCharges'', ''Contract_Two year'',
         ''InternetService_Fiber optic'', ''InternetService_No'']
        identity_scaler
        \<lparr>tenureMonths = 30, monthlyCharges = 40, totalCharges = 1200,
          contractType = ''One year'', internetService = ''DSL'',
          paperlessBilling = ''Yes''\<rparr> = Inr fv \<and>
      getitem fv ''Contract_One year'' = [] \<and>
      count_list (columns fv) ''Contract_One year'' = 0 \<and>
      getitem fv ''InternetService_DSL'' = [] \<and>
      getitem fv ''PaperlessBilling'' = [] \<and>
      count_list (columns fv) ''PaperlessBilling'' = 0)"
proof -
  have a: "apply_scaling identity_scaler
      (assign_numeric
        [''tenure'', ''MonthlyCharges'', ''TotalCharges'', ''Contract_One year'',
         ''Contract_Two year'', ''InternetService_Fiber optic'', ''InternetService_No'',
         ''PaperlessBilling'']
        \<lparr>tenureMonths = 30, monthlyCharges = 40, totalCharges = 1200,
          contractType = ''Two year'', internetService = ''Fiber optic'',
          paperlessBilling = ''Yes''\<rparr>) =
     Inr [(''tenure'', 30), (''MonthlyCharges'', 40), (''TotalCharges'', 1200),
          (''Contract_One year'', 0), (''Contract_Two year'', 0),
          (''InternetService_Fiber optic'', 0), (''InternetService_No'', 0),
          (''PaperlessBilling'', 0)]"
    by (simp add: run_defs identity_scaler_def)
  have b: "apply_scaling identity_scaler
      (assign_numeric
        [''tenure'', ''MonthlyCharges'', ''TotalCharges'', ''Contract_Two year'',
         ''InternetService_Fiber optic'', ''InternetService_No'']
        \<lparr>tenureMonths = 30, monthlyCharges = 40, totalCharges = 1200,
          contractType = ''One year'', internetService = ''DSL'',
          paperlessBilling = ''Yes''\<rparr>) =
     Inr [(''tenure'', 30), (''MonthlyCharges'', 40), (''TotalCharges'', 1200),
          (''Contract_Two year'', 0), (''InternetService_Fiber optic'', 0),
          (''InternetService_No'', 0)]"
    by (simp add: run_defs identity_scaler_def)
  from categorical_indicators [OF a, of "''Two year''" "''Fiber optic''"]
    categorical_indicators [OF b, of "''One year''" "''DSL''"]
  show ?thesis
    by (simp; blast)
qed

end
